theory Spec2Isabelle
  imports Main
begin

section \<open>Values\<close>

text \<open>
  The class is \<^verbatim>\<open>Observable<R = any, P = any>\<close>: at run time its fields hold arbitrary
  JavaScript values. A value is a primitive, or an array or an object, which carries the
  identity of the object (a number, different for different objects) and its contents.
  \<open>JNum\<close> is a number that is not NaN (only its being zero or not matters to the class);
  \<open>JNaN\<close> is NaN.
\<close>

datatype jsval =
    JUndefined
  | JNull
  | JBool bool
  | JNum int
  | JNaN
  | JStr string
  | JArray nat "jsval list"
  | JObject nat "(string \<times> jsval) list"

text \<open>
  Strict equality \<^verbatim>\<open>===\<close>: objects are equal when they are the same object, primitives when
  they have the same value, except that NaN is not equal to itself.
\<close>

fun ref_of :: "jsval \<Rightarrow> nat option" where
  "ref_of (JArray a xs) = Some a"
| "ref_of (JObject a fs) = Some a"
| "ref_of v = None"

definition strict_eq :: "jsval \<Rightarrow> jsval \<Rightarrow> bool" where
  "strict_eq x y =
     (case ref_of x of
        Some a \<Rightarrow> (case ref_of y of Some b \<Rightarrow> a = b | None \<Rightarrow> False)
      | None \<Rightarrow> (case ref_of y of Some b \<Rightarrow> False | None \<Rightarrow> x = y \<and> x \<noteq> JNaN))"

text \<open>
  \<^verbatim>\<open>if (data)\<close> and \<^verbatim>\<open>!this.data\<close> test truthiness: every object and every array, also an
  empty one, is truthy; \<open>undefined\<close>, \<open>null\<close>, \<open>false\<close>, zero, NaN and the empty string are
  falsy.
\<close>

fun truthy :: "jsval \<Rightarrow> bool" where
  "truthy JUndefined = False"
| "truthy JNull = False"
| "truthy (JBool b) = b"
| "truthy (JNum n) = (n \<noteq> 0)"
| "truthy JNaN = False"
| "truthy (JStr s) = (s \<noteq> [])"
| "truthy (JArray a xs) = True"
| "truthy (JObject a fs) = True"


text \<open>The sentinel \<^verbatim>\<open>"MOCKING"\<close> that \<open>lastLoadedParams\<close> may hold.\<close>

abbreviation MOCKING :: jsval where
  "MOCKING \<equiv> JStr ''MOCKING''"

text \<open>
  The values of the repository: the params that \<open>Parent\<close> gives the hook, and what the data
  source resolves and rejects with.
\<close>

abbreviation request :: jsval where
  "request \<equiv> JObject 1 [(''id'', JStr ''id'')]"

abbreviation rows :: jsval where
  "rows \<equiv> JArray 2 [JObject 3 [(''name'', JStr ''row-1'')], JObject 4 [(''name'', JStr ''row-2'')]]"

abbreviation failure :: jsval where
  "failure \<equiv> JObject 5 [(''cause'', JStr ''This is an error'')]"

datatype js_error = Error string | TypeError string

section \<open>The Observable class\<close>

text \<open>The fields of an instance, with the initial values of the class body.\<close>

record observable =
  data :: jsval
  error :: jsval
  isAwake :: bool
  isLoading :: bool
  isLazy :: bool
  params :: jsval
  lastLoadedParams :: jsval

definition new_observable :: observable where
  "new_observable =
     \<lparr>data = JUndefined, error = JUndefined, isAwake = False, isLoading = False,
      isLazy = False, params = JUndefined, lastLoadedParams = JUndefined\<rparr>"

text \<open>
  What an instance does to the outside is recorded in a trace, each entry with the fields as
  they are at that moment: \<open>Dispatch name\<close> is \<^verbatim>\<open>this.dispatchEvent(new Event(name))\<close>, which
  runs the listeners synchronously; \<open>Call p\<close> is \<^verbatim>\<open>this.cb(p)\<close>, the call of the underlying
  function; \<open>Callback c v\<close> is the invocation \<^verbatim>\<open>cb?.(v)\<close> of the per-call callback with
  the identity \<open>c\<close>; \<open>Throw e\<close> is an exception that leaves the method and reaches its
  caller. In each method the statement that can throw is the last one that touches the
  instance, so a \<open>Throw\<close> skips no assignment.

  The code of the outside is not part of the class. A per-call callback either returns or
  throws when it is invoked. The underlying function, the argument \<open>cb\<close> of the
  constructor, either returns a promise or throws before it does (\<open>this_cb w p = Some e\<close>:
  at the params \<open>p\<close> it throws \<open>e\<close>; which of the two it does is taken to depend on the
  params only). An exception in a listener is reported by the event
  target and does not reach the instance. Neither listeners nor callbacks call the methods
  of the instance or assign its fields while they run.

  \<open>inflight\<close> lists the promises returned by the underlying function and not yet settled,
  each with the per-call callback that its \<^verbatim>\<open>then\<close> handler captured.
\<close>

datatype callback = Returns nat | Throws nat jsval

datatype effect = Dispatch string | Call jsval | Callback nat jsval | Throw jsval

record world =
  obs :: observable
  this_cb :: "jsval \<Rightarrow> jsval option"
  trace :: "(effect \<times> observable) list"
  inflight :: "callback option list"

text \<open>\<^verbatim>\<open>new Observable(cb)\<close>.\<close>

definition new_world :: "(jsval \<Rightarrow> jsval option) \<Rightarrow> world" where
  "new_world cb = \<lparr>obs = new_observable, this_cb = cb, trace = [], inflight = []\<rparr>"

text \<open>An instance whose underlying function returns a promise at all params.\<close>

abbreviation promising :: world where
  "promising \<equiv> new_world (\<lambda>p. None)"

definition dispatchEvent :: "string \<Rightarrow> world \<Rightarrow> world" where
  "dispatchEvent name w = w\<lparr>trace := trace w @ [(Dispatch name, obs w)]\<rparr>"

definition throw :: "jsval \<Rightarrow> world \<Rightarrow> world" where
  "throw e w = w\<lparr>trace := trace w @ [(Throw e, obs w)]\<rparr>"

text \<open>
  \<^verbatim>\<open>cb?.(v)\<close>: nothing happens when no callback was given. The result says whether the
  callback threw.
\<close>

definition call_cb :: "callback option \<Rightarrow> jsval \<Rightarrow> world \<Rightarrow> jsval option \<times> world" where
  "call_cb cb v w =
     (case cb of
        None \<Rightarrow> (None, w)
      | Some (Returns c) \<Rightarrow> (None, w\<lparr>trace := trace w @ [(Callback c v, obs w)]\<rparr>)
      | Some (Throws c e) \<Rightarrow> (Some e, w\<lparr>trace := trace w @ [(Callback c v, obs w)]\<rparr>))"

definition setParams :: "jsval \<Rightarrow> world \<Rightarrow> world" where
  "setParams p w = w\<lparr>obs := (obs w)\<lparr>params := p\<rparr>\<rparr>"

definition setData :: "jsval \<Rightarrow> world \<Rightarrow> world" where
  "setData d w =
     (let w1 = (if truthy d then w\<lparr>obs := (obs w)\<lparr>isAwake := True\<rparr>\<rparr> else w);
          w2 = w1\<lparr>obs := (obs w1)\<lparr>data := d\<rparr>\<rparr>
      in dispatchEvent ''data'' w2)"

text \<open>
  \<open>fetch\<close> stores the params and calls the underlying function. When that returns a
  promise, the two handlers are attached to it; they run later, when the promise settles.
  When it throws, no handler is attached and the exception leaves \<open>fetch\<close> and the method
  that called it.
\<close>

definition fetch :: "jsval \<Rightarrow> callback option \<Rightarrow> world \<Rightarrow> world" where
  "fetch p cb w =
     (let w1 = w\<lparr>obs := (obs w)\<lparr>params := p\<rparr>\<rparr>;
          w2 = w1\<lparr>trace := trace w1 @ [(Call (params (obs w1)), obs w1)]\<rparr>
      in case this_cb w1 (params (obs w1)) of
           None \<Rightarrow> w2\<lparr>inflight := inflight w2 @ [cb]\<rparr>
         | Some e \<Rightarrow> throw e w2)"

text \<open>
  The \<^verbatim>\<open>then\<close> handler, applied to the \<open>data\<close> field of the resolved value. Its last
  statement invokes the callback; the result says whether that threw.
\<close>

definition fetch_then :: "callback option \<Rightarrow> jsval \<Rightarrow> world \<Rightarrow> jsval option \<times> world" where
  "fetch_then cb res_data w =
     (let w1 = setData res_data w;
          w2 = w1\<lparr>obs := (obs w1)\<lparr>error := JUndefined\<rparr>\<rparr>;
          w3 = w2\<lparr>obs := (obs w2)\<lparr>isLoading := False\<rparr>\<rparr>
      in call_cb cb res_data w3)"

text \<open>The \<^verbatim>\<open>catch\<close> handler, applied to the rejection value or to the exception.\<close>

definition fetch_catch :: "jsval \<Rightarrow> world \<Rightarrow> world" where
  "fetch_catch err w =
     (let w1 = w\<lparr>obs := (obs w)\<lparr>error := err\<rparr>\<rparr>;
          w2 = w1\<lparr>obs := (obs w1)\<lparr>isLoading := False\<rparr>\<rparr>
      in dispatchEvent ''error'' w2)"

text \<open>
  The environment settles the \<open>i\<close>-th promise in flight: it resolves with a value whose
  \<open>data\<close> field is \<open>d\<close> (\<open>JUndefined\<close> when the field is absent), or rejects with \<open>e\<close>.
  The promise leaves \<open>inflight\<close> and its handlers run: \<^verbatim>\<open>catch\<close> is chained after
  \<^verbatim>\<open>then\<close>, so it runs when the promise rejects and also when the \<^verbatim>\<open>then\<close> handler
  throws. There is nothing to settle at an index beyond the list.
\<close>

datatype outcome = Resolved jsval | Rejected jsval

definition settle :: "nat \<Rightarrow> outcome \<Rightarrow> world \<Rightarrow> world" where
  "settle i out w =
     (if i < length (inflight w) then
        (let cb = inflight w ! i;
             w1 = w\<lparr>inflight := take i (inflight w) @ drop (Suc i) (inflight w)\<rparr>
         in case out of
              Resolved d \<Rightarrow>
                (case fetch_then cb d w1 of
                   (None, w2) \<Rightarrow> w2
                 | (Some e, w2) \<Rightarrow> fetch_catch e w2)
            | Rejected e \<Rightarrow> fetch_catch e w1)
      else w)"

definition load :: "bool \<Rightarrow> callback option \<Rightarrow> world \<Rightarrow> world" where
  "load reload cb w =
     (if isLoading (obs w) then w
      else
        (let w1 = w\<lparr>obs := (obs w)\<lparr>isAwake := True\<rparr>\<rparr>
         in if (\<not> reload \<and> strict_eq (params (obs w1)) (lastLoadedParams (obs w1)))
               \<or> strict_eq (lastLoadedParams (obs w1)) MOCKING
            then (if strict_eq (lastLoadedParams (obs w1)) MOCKING \<and> truthy (data (obs w1))
                  then (case call_cb cb (data (obs w1)) w1 of
                          (None, w2) \<Rightarrow> w2
                        | (Some e, w2) \<Rightarrow> throw e w2)
                  else w1)
            else
              (let w2 = w1\<lparr>obs := (obs w1)\<lparr>lastLoadedParams := params (obs w1)\<rparr>\<rparr>;
                   w3 = w2\<lparr>obs := (obs w2)\<lparr>error := JUndefined\<rparr>\<rparr>;
                   w4 = w3\<lparr>obs := (obs w3)\<lparr>isLoading := True\<rparr>\<rparr>;
                   w5 = dispatchEvent ''loading'' w4
               in fetch (params (obs w5)) cb w5)))"

definition awaken :: "world \<Rightarrow> world" where
  "awaken w = (if \<not> isAwake (obs w) then load True None w else w)"

definition do :: "callback option \<Rightarrow> world \<Rightarrow> world" where
  "do cb w = load True cb w"

definition reload :: "world \<Rightarrow> world" where
  "reload w = load True None w"

definition refetch :: "callback option \<Rightarrow> world \<Rightarrow> world" where
  "refetch cb w =
     (let w1 = w\<lparr>obs := (obs w)\<lparr>lastLoadedParams := params (obs w)\<rparr>\<rparr>
      in fetch (params (obs w1)) cb w1)"

definition lazy :: "world \<Rightarrow> world" where
  "lazy w = w\<lparr>obs := (obs w)\<lparr>isLazy := True\<rparr>\<rparr>"


text \<open>The calls of the underlying function so far, by their params and in order.\<close>

fun calls_in :: "(effect \<times> observable) list \<Rightarrow> jsval list" where
  "calls_in [] = []"
| "calls_in ((Call p, s) # t) = p # calls_in t"
| "calls_in (x # t) = calls_in t"

definition calls :: "world \<Rightarrow> jsval list" where
  "calls w = calls_in (trace w)"

text \<open>The events dispatched so far, by their names and in order.\<close>

fun dispatched_in :: "(effect \<times> observable) list \<Rightarrow> string list" where
  "dispatched_in [] = []"
| "dispatched_in ((Dispatch name, s) # t) = name # dispatched_in t"
| "dispatched_in (x # t) = dispatched_in t"

definition dispatched :: "world \<Rightarrow> string list" where
  "dispatched w = dispatched_in (trace w)"

section \<open>The model of the rows\<close>

text \<open>
  \<open>getRows\<close> makes an instance whose underlying function takes the \<open>id\<close> out of its
  argument: that throws a TypeError when the params are \<open>undefined\<close> or \<open>null\<close>, and returns
  the promise of the data source otherwise.
\<close>

abbreviation cannot_destructure :: jsval where
  "cannot_destructure \<equiv> JObject 0 [(''name'', JStr ''TypeError'')]"

definition getRows_cb :: "jsval \<Rightarrow> jsval option" where
  "getRows_cb p = (if p = JUndefined \<or> p = JNull then Some cannot_destructure else None)"

definition getRows :: world where
  "getRows = new_world getRows_cb"

section \<open>The hook useObservable\<close>

text \<open>
  The listener that the hook subscribes to the three events hands React an updater that
  copies three fields of the instance into the render state of the component.
  \<open>dataListener\<close> is that updater, applied to the fields as they are when it runs. React
  runs it while the event is dispatched when the component is under a legacy root, and
  at the next render, after the method or handler has finished, under a concurrent root.
\<close>

record meta =
  meta_error :: jsval
  meta_isLoading :: bool
  meta_data :: jsval

definition dataListener :: "observable \<Rightarrow> meta" where
  "dataListener observable =
     \<lparr>meta_error = error observable, meta_isLoading = isLoading observable,
      meta_data = data observable\<rparr>"

text \<open>
  What the updater stores at each event of a trace when it runs while the event is
  dispatched (a legacy root), with the name of the event: the last entry is what the
  component renders from.
\<close>

fun listened :: "(effect \<times> observable) list \<Rightarrow> (string \<times> meta) list" where
  "listened [] = []"
| "listened ((Dispatch name, s) # t) = (name, dataListener s) # listened t"
| "listened (x # t) = listened t"

text \<open>The second effect of the hook, at the first attachment of the component.\<close>

definition useObservable_attach :: "world \<Rightarrow> world" where
  "useObservable_attach w =
     (if \<not> isAwake (obs w) \<and> \<not> isLazy (obs w) then load True None w else w)"

text \<open>
  The hook keeps the instances that were given a name other than \<^verbatim>\<open>"default"\<close> in the
  module-level table \<open>NAMED_OBSERVABLES\<close>. The table holds references: \<open>heap\<close> maps the
  identity of an instance to its state, so that an update through the table is an update of
  the instance itself. The first effect of the hook adds the entry and its clean-up deletes
  it.
\<close>

record system =
  heap :: "nat \<Rightarrow> world"
  NAMED_OBSERVABLES :: "string \<rightharpoonup> nat"

definition new_system :: system where
  "new_system = \<lparr>heap = (\<lambda>a. getRows), NAMED_OBSERVABLES = Map.empty\<rparr>"

definition useObservable_register :: "string \<Rightarrow> nat \<Rightarrow> system \<Rightarrow> system" where
  "useObservable_register testId observable sys =
     (if testId \<noteq> ''default''
      then sys\<lparr>NAMED_OBSERVABLES := (NAMED_OBSERVABLES sys)(testId \<mapsto> observable)\<rparr>
      else sys)"

definition useObservable_unregister :: "string \<Rightarrow> system \<Rightarrow> system" where
  "useObservable_unregister testId sys =
     (if testId \<noteq> ''default''
      then sys\<lparr>NAMED_OBSERVABLES := (NAMED_OBSERVABLES sys)(testId := None)\<rparr>
      else sys)"

text \<open>
  The table is a plain object literal, so \<^verbatim>\<open>NAMED_OBSERVABLES[name]\<close> for a name that has no
  entry finds the members that every object inherits from \<^verbatim>\<open>Object.prototype\<close>. These are
  truthy and have no \<open>setData\<close>: the call of \<open>setData\<close> throws a TypeError where the
  \<^verbatim>\<open>else\<close> branch would have thrown the Error of the source. (An instance registered under
  the name \<^verbatim>\<open>__proto__\<close> would change what the table inherits; the hook is taken not to be
  given that name.)
\<close>

definition object_prototype_keys :: "string list" where
  "object_prototype_keys =
     [''constructor'', ''hasOwnProperty'', ''isPrototypeOf'', ''propertyIsEnumerable'',
      ''toLocaleString'', ''toString'', ''valueOf'', ''__proto__'', ''__defineGetter__'',
      ''__defineSetter__'', ''__lookupGetter__'', ''__lookupSetter__'']"

definition updateObservable :: "string \<Rightarrow> jsval \<Rightarrow> system \<Rightarrow> js_error + system" where
  "updateObservable name d sys =
     (case NAMED_OBSERVABLES sys name of
        Some a \<Rightarrow> Inr (sys\<lparr>heap := (heap sys)(a := setData d (heap sys a))\<rparr>)
      | None \<Rightarrow>
          (if name \<in> set object_prototype_keys
           then Inl (TypeError ''NAMED_OBSERVABLES[name].setData is not a function'')
           else Inl (Error (name @ '' is not a current observable and cannot be updated''))))"

section \<open>Sequences of operations\<close>

text \<open>
  What can happen to an instance, one step at a time: a call of one of its methods, the
  attachment of a component by the hook, or the settling of a promise in flight.
  (\<open>connectData\<close> subscribes a listener that calls \<open>setData\<close>, and the hook calls
  \<open>setParams\<close> when it is given params: for the instance these are \<open>SetData\<close> and
  \<open>SetParams\<close> steps.)
\<close>

datatype op =
    SetParams jsval
  | Awaken
  | Load bool "callback option"
  | Do "callback option"
  | Reload
  | Refetch "callback option"
  | SetData jsval
  | Lazy
  | Attach
  | Settle nat outcome

fun apply_op :: "op \<Rightarrow> world \<Rightarrow> world" where
  "apply_op (SetParams p) w = setParams p w"
| "apply_op Awaken w = awaken w"
| "apply_op (Load r cb) w = load r cb w"
| "apply_op (Do cb) w = do cb w"
| "apply_op Reload w = reload w"
| "apply_op (Refetch cb) w = refetch cb w"
| "apply_op (SetData d) w = setData d w"
| "apply_op Lazy w = lazy w"
| "apply_op Attach w = useObservable_attach w"
| "apply_op (Settle i out) w = settle i out w"

fun run :: "op list \<Rightarrow> world \<Rightarrow> world" where
  "run [] w = w"
| "run (x # xs) w = run xs (apply_op x w)"



text \<open>What a per-call callback throws when it is invoked, if it was given and throws.\<close>

fun throws :: "callback option \<Rightarrow> jsval option" where
  "throws None = None"
| "throws (Some (Returns c)) = None"
| "throws (Some (Throws c e)) = Some e"

section \<open>Basic facts\<close>

lemma calls_in_append: "calls_in (t @ u) = calls_in t @ calls_in u"
  by (induction t rule: calls_in.induct) simp_all

lemma dispatched_in_append: "dispatched_in (t @ u) = dispatched_in t @ dispatched_in u"
  by (induction t rule: dispatched_in.induct) simp_all

lemma strict_eq_same: "strict_eq x x = (x \<noteq> JNaN)"
  by (cases x) (simp_all add: strict_eq_def)

lemma strict_eq_str: "strict_eq x (JStr s) = (x = JStr s)"
  by (cases x) (auto simp add: strict_eq_def)

lemmas obs_defs =
  new_world_def new_observable_def dispatchEvent_def throw_def call_cb_def setParams_def
  setData_def fetch_def fetch_then_def fetch_catch_def settle_def load_def awaken_def do_def
  reload_def refetch_def lazy_def useObservable_attach_def getRows_def getRows_cb_def
  strict_eq_def Let_def


lemma load_fetches:
  assumes "\<not> isLoading (obs w)" and "lastLoadedParams (obs w) \<noteq> MOCKING"
    and "r \<or> \<not> strict_eq (params (obs w)) (lastLoadedParams (obs w))"
  shows "load r cb w =
    (case this_cb w (params (obs w)) of
       None \<Rightarrow>
         \<lparr>obs = (obs w)\<lparr>isAwake := True, lastLoadedParams := params (obs w),
                  error := JUndefined, isLoading := True\<rparr>,
          this_cb = this_cb w,
          trace = trace w @
            [(Dispatch ''loading'',
               (obs w)\<lparr>isAwake := True, lastLoadedParams := params (obs w),
                  error := JUndefined, isLoading := True\<rparr>),
             (Call (params (obs w)),
               (obs w)\<lparr>isAwake := True, lastLoadedParams := params (obs w),
                  error := JUndefined, isLoading := True\<rparr>)],
          inflight = inflight w @ [cb]\<rparr>
     | Some e \<Rightarrow>
         \<lparr>obs = (obs w)\<lparr>isAwake := True, lastLoadedParams := params (obs w),
                  error := JUndefined, isLoading := True\<rparr>,
          this_cb = this_cb w,
          trace = trace w @
            [(Dispatch ''loading'',
               (obs w)\<lparr>isAwake := True, lastLoadedParams := params (obs w),
                  error := JUndefined, isLoading := True\<rparr>),
             (Call (params (obs w)),
               (obs w)\<lparr>isAwake := True, lastLoadedParams := params (obs w),
                  error := JUndefined, isLoading := True\<rparr>),
             (Throw e,
               (obs w)\<lparr>isAwake := True, lastLoadedParams := params (obs w),
                  error := JUndefined, isLoading := True\<rparr>)],
          inflight = inflight w\<rparr>)"
  using assms
  by (auto simp add: load_def fetch_def dispatchEvent_def throw_def strict_eq_str Let_def
      split: option.split)

lemma load_fetches_facts:
  assumes "\<not> isLoading (obs w)" and "lastLoadedParams (obs w) \<noteq> MOCKING"
    and "r \<or> \<not> strict_eq (params (obs w)) (lastLoadedParams (obs w))"
  shows "obs (load r cb w) =
      (obs w)\<lparr>isAwake := True, lastLoadedParams := params (obs w), error := JUndefined,
        isLoading := True\<rparr>"
    and "calls (load r cb w) = calls w @ [params (obs w)]"
    and "dispatched (load r cb w) = dispatched w @ [''loading'']"
    and "inflight (load r cb w) =
      (if this_cb w (params (obs w)) = None then inflight w @ [cb] else inflight w)"
    and "this_cb (load r cb w) = this_cb w"
  by (simp_all add: load_fetches [OF assms] calls_def dispatched_def calls_in_append
      dispatched_in_append split: option.split)


lemma calls_load_skipped:
  assumes "\<not> r \<and> strict_eq (params (obs w)) (lastLoadedParams (obs w))
    \<or> lastLoadedParams (obs w) = MOCKING"
  shows "calls (load r cb w) = calls w"
  using assms
  by (auto simp add: load_def Let_def calls_def call_cb_def throw_def calls_in_append
      strict_eq_str split: option.split callback.split)

lemma dispatched_load_skipped:
  assumes "\<not> r \<and> strict_eq (params (obs w)) (lastLoadedParams (obs w))
    \<or> lastLoadedParams (obs w) = MOCKING"
  shows "dispatched (load r cb w) = dispatched w"
  using assms
  by (auto simp add: load_def Let_def dispatched_def call_cb_def throw_def dispatched_in_append
      strict_eq_str split: option.split callback.split)

lemma refetch_eq:
  "refetch cb w =
     (case this_cb w (params (obs w)) of
        None \<Rightarrow>
          \<lparr>obs = (obs w)\<lparr>lastLoadedParams := params (obs w)\<rparr>,
           this_cb = this_cb w,
           trace = trace w @
             [(Call (params (obs w)), (obs w)\<lparr>lastLoadedParams := params (obs w)\<rparr>)],
           inflight = inflight w @ [cb]\<rparr>
      | Some e \<Rightarrow>
          \<lparr>obs = (obs w)\<lparr>lastLoadedParams := params (obs w)\<rparr>,
           this_cb = this_cb w,
           trace = trace w @
             [(Call (params (obs w)), (obs w)\<lparr>lastLoadedParams := params (obs w)\<rparr>),
              (Throw e, (obs w)\<lparr>lastLoadedParams := params (obs w)\<rparr>)],
           inflight = inflight w\<rparr>)"
  by (simp add: refetch_def fetch_def throw_def Let_def split: option.split)

lemma settle_beyond: "length (inflight w) \<le> i \<Longrightarrow> settle i out w = w"
  by (simp add: settle_def)

lemma settle_last:
  assumes "inflight w = fs @ [cb]"
  shows "\<not> isLoading (obs (settle (length fs) out w))"
    and "params (obs (settle (length fs) out w)) = params (obs w)"
    and "lastLoadedParams (obs (settle (length fs) out w)) = lastLoadedParams (obs w)"
    and "isAwake (obs w) \<Longrightarrow> isAwake (obs (settle (length fs) out w))"
    and "calls (settle (length fs) out w) = calls w"
    and "inflight (settle (length fs) out w) = fs"
    and "this_cb (settle (length fs) out w) = this_cb w"
  using assms
  by (auto simp add: settle_def fetch_then_def fetch_catch_def setData_def dispatchEvent_def
      call_cb_def calls_def calls_in_append Let_def
      split: outcome.split option.split callback.split)

lemma reload_round:
  assumes "\<not> isLoading (obs w)" and "lastLoadedParams (obs w) \<noteq> MOCKING"
    and "inflight w = []" and "this_cb w (params (obs w)) = None"
  shows "\<not> isLoading (obs (settle 0 out (reload w)))
    \<and> lastLoadedParams (obs (settle 0 out (reload w))) = params (obs w)
    \<and> params (obs (settle 0 out (reload w))) = params (obs w)
    \<and> inflight (settle 0 out (reload w)) = []
    \<and> this_cb (settle 0 out (reload w)) = this_cb w
    \<and> calls (settle 0 out (reload w)) = calls w @ [params (obs w)]"
proof -
  note f = load_fetches_facts [of w True None]
  have i: "inflight (reload w) = [] @ [None]"
    unfolding reload_def using assms by (simp add: f(4))
  show ?thesis
    using settle_last [OF i, of out] assms
    by (simp add: reload_def f)
qed

lemma reload_rounds:
  assumes "\<not> isLoading (obs w)" and "lastLoadedParams (obs w) \<noteq> MOCKING"
    and "params (obs w) \<noteq> MOCKING" and "inflight w = []"
    and "this_cb w (params (obs w)) = None"
  shows "calls (run (concat (map (\<lambda>out. [Reload, Settle 0 out]) outs)) w)
    = calls w @ replicate (length outs) (params (obs w))"
  using assms
proof (induction outs arbitrary: w)
  case Nil
  then show ?case by simp
next
  case (Cons out outs)
  let ?w' = "settle 0 out (reload w)"
  note r = reload_round [OF Cons.prems(1,2,4,5), of out]
  have "calls (run (concat (map (\<lambda>out. [Reload, Settle 0 out]) outs)) ?w')
      = calls ?w' @ replicate (length outs) (params (obs ?w'))"
    using r Cons.prems(3,5) by (intro Cons.IH) simp_all
  then show ?case
    using r by (simp add: replicate_append_same)
qed




section \<open>Completion of the underlying call\<close>

text \<open>
  C5. After the underlying call rejects, \<open>data\<close> keeps the value it had, \<open>error\<close> is the
  rejection value, \<open>isLoading\<close> is false and an "error" event has been dispatched (with these
  fields already in place); nothing else is dispatched, called or invoked.
\<close>

theorem reject_keeps_data:
  assumes "i < length (inflight w)"
  shows "data (obs (settle i (Rejected e) w)) = data (obs w)
    \<and> error (obs (settle i (Rejected e) w)) = e
    \<and> isLoading (obs (settle i (Rejected e) w)) = False
    \<and> trace (settle i (Rejected e) w) =
        trace w @ [(Dispatch ''error'', (obs w)\<lparr>error := e, isLoading := False\<rparr>)]"
  using assms by (simp add: settle_def fetch_catch_def dispatchEvent_def Let_def)

theorem reject_keeps_data_witness:
  "0 < length (inflight (load True None (setParams request (setData rows promising))))
   \<and> data (obs (settle 0 (Rejected failure)
         (load True None (setParams request (setData rows promising))))) = rows
   \<and> error (obs (settle 0 (Rejected failure)
         (load True None (setParams request (setData rows promising))))) = failure
   \<and> isLoading (obs (settle 0 (Rejected failure)
         (load True None (setParams request (setData rows promising))))) = False
   \<and> dispatched (settle 0 (Rejected failure)
         (load True None (setParams request (setData rows promising))))
       = [''data'', ''loading'', ''error'']"
proof -
  let ?w = "load True None (setParams request (setData rows promising))"
  have h: "0 < length (inflight ?w)"
    by (simp add: obs_defs)
  have t: "dispatched ?w = [''data'', ''loading'']"
    by (simp add: obs_defs dispatched_def)
  have d: "data (obs ?w) = rows"
    by (simp add: obs_defs)
  from reject_keeps_data [OF h, of failure] h t d show ?thesis
    by (simp add: dispatched_def dispatched_in_append)
qed

text \<open>
  C6, amended. After the underlying call resolves, \<open>data\<close> is the \<open>data\<close> field of the
  resolved value and \<open>isLoading\<close> is false. \<open>error\<close> is \<open>undefined\<close> when no per-call
  callback was given or the callback returns, and only "data" is dispatched. When the
  callback throws, the chained \<^verbatim>\<open>catch\<close> handler stores what it threw in \<open>error\<close> and
  dispatches "error" after "data".
\<close>

theorem resolve_replaces_data:
  assumes "i < length (inflight w)"
  shows "data (obs (settle i (Resolved d) w)) = d
    \<and> isLoading (obs (settle i (Resolved d) w)) = False
    \<and> error (obs (settle i (Resolved d) w)) =
        (case throws (inflight w ! i) of None \<Rightarrow> JUndefined | Some e \<Rightarrow> e)
    \<and> dispatched (settle i (Resolved d) w) =
        dispatched w @
          (case throws (inflight w ! i) of None \<Rightarrow> [''data''] | Some e \<Rightarrow> [''data'', ''error''])"
proof (cases "inflight w ! i")
  case None
  then show ?thesis
    using assms
    by (simp add: settle_def fetch_then_def setData_def dispatchEvent_def call_cb_def
        dispatched_def dispatched_in_append Let_def)
next
  case (Some c)
  then show ?thesis
    using assms
    by (cases c)
      (simp_all add: settle_def fetch_then_def fetch_catch_def setData_def dispatchEvent_def
        call_cb_def dispatched_def dispatched_in_append Let_def)
qed

theorem resolve_replaces_data_witness:
  "0 < length (inflight (refetch (Some (Returns 5)) (settle 0 (Rejected failure)
       (load True None (setParams request promising)))))
   \<and> error (obs (refetch (Some (Returns 5)) (settle 0 (Rejected failure)
       (load True None (setParams request promising))))) = failure
   \<and> error (obs (settle 0 (Resolved rows) (refetch (Some (Returns 5))
       (settle 0 (Rejected failure) (load True None (setParams request promising))))))
       = JUndefined
   \<and> data (obs (settle 0 (Resolved rows) (refetch (Some (Returns 5))
       (settle 0 (Rejected failure) (load True None (setParams request promising))))))
       = rows
   \<and> isLoading (obs (settle 0 (Resolved rows) (refetch (Some (Returns 5))
       (settle 0 (Rejected failure) (load True None (setParams request promising))))))
       = False"
proof -
  let ?w = "refetch (Some (Returns 5)) (settle 0 (Rejected failure)
       (load True None (setParams request promising)))"
  have h: "0 < length (inflight ?w)"
    by (simp add: obs_defs)
  have e: "error (obs ?w) = failure"
    by (simp add: obs_defs)
  have c: "inflight ?w ! 0 = Some (Returns 5)"
    by (simp add: obs_defs)
  from resolve_replaces_data [OF h, of rows] h e c show ?thesis
    by simp
qed

text \<open>
  As stated for every resolved call the claim fails: with a per-call callback that throws,
  \<open>error\<close> is not cleared but holds the exception once the handlers have run.
\<close>

theorem callback_throws_counterexample:
  "inflight (load False (Some (Throws 5 (JStr ''boom''))) (setParams request getRows))
     = [Some (Throws 5 (JStr ''boom''))]
   \<and> error (obs (settle 0 (Resolved rows)
        (load False (Some (Throws 5 (JStr ''boom''))) (setParams request getRows))))
       = JStr ''boom''
   \<and> dispatched (settle 0 (Resolved rows)
        (load False (Some (Throws 5 (JStr ''boom''))) (setParams request getRows)))
       = [''loading'', ''data'', ''error'']"
  by (simp add: obs_defs dispatched_def)

text \<open>
  C4. The claim is that on success the fields are updated first and the "data" event is
  dispatched last, so that no listener sees \<open>isLoading\<close> still true or the error of before.
  The \<^verbatim>\<open>then\<close> handler dispatches the event inside \<open>setData\<close>, before it clears \<open>error\<close>
  and \<open>isLoading\<close>, and invokes the callback after; the \<^verbatim>\<open>catch\<close> handler and \<open>load\<close>
  assign first and dispatch last. At a load of the rows that resolves, the "data" event is
  dispatched with \<open>isLoading = True\<close> and before the callback, while the instance ends with
  \<open>isLoading = False\<close>; at a refetch after a failed load (of an instance whose underlying
  function can reject) it is dispatched with the error of the failed load, while the
  instance ends with no error. An updater of the hook that
  runs while the event is dispatched stores just these fields.
\<close>

theorem data_event_before_flags_cleared:
  "trace (settle 0 (Resolved rows) (load False (Some (Returns 5)) (setParams request getRows))) =
     [(Dispatch ''loading'',
        new_observable\<lparr>isAwake := True, params := request, lastLoadedParams := request,
          isLoading := True\<rparr>),
      (Call request,
        new_observable\<lparr>isAwake := True, params := request, lastLoadedParams := request,
          isLoading := True\<rparr>),
      (Dispatch ''data'',
        new_observable\<lparr>isAwake := True, params := request, lastLoadedParams := request,
          isLoading := True, data := rows\<rparr>),
      (Callback 5 rows,
        new_observable\<lparr>isAwake := True, params := request, lastLoadedParams := request,
          isLoading := False, data := rows\<rparr>)]
   \<and> listened (trace (settle 0 (Resolved rows)
         (load False (Some (Returns 5)) (setParams request getRows)))) =
     [(''loading'', \<lparr>meta_error = JUndefined, meta_isLoading = True, meta_data = JUndefined\<rparr>),
      (''data'', \<lparr>meta_error = JUndefined, meta_isLoading = True, meta_data = rows\<rparr>)]
   \<and> isLoading (obs (settle 0 (Resolved rows)
         (load False (Some (Returns 5)) (setParams request getRows)))) = False
   \<and> listened (trace (settle 0 (Resolved rows) (refetch None (settle 0 (Rejected failure)
         (load False None (setParams request promising)))))) =
     [(''loading'', \<lparr>meta_error = JUndefined, meta_isLoading = True, meta_data = JUndefined\<rparr>),
      (''error'', \<lparr>meta_error = failure, meta_isLoading = False, meta_data = JUndefined\<rparr>),
      (''data'', \<lparr>meta_error = failure, meta_isLoading = False, meta_data = rows\<rparr>)]
   \<and> error (obs (settle 0 (Resolved rows) (refetch None (settle 0 (Rejected failure)
         (load False None (setParams request promising)))))) = JUndefined"
  by (simp add: obs_defs dataListener_def)

section \<open>Seeding and guarding\<close>







section \<open>The table of named instances\<close>

text \<open>
  C9. \<open>updateObservable name d\<close> throws if and only if \<open>name\<close> has no entry in
  \<open>NAMED_OBSERVABLES\<close>; when it has one, the call returns after \<open>setData d\<close> on the instance
  of that entry.
\<close>

theorem updateObservable_throws_iff:
  "((\<exists>e. updateObservable name d sys = Inl e) \<longleftrightarrow> NAMED_OBSERVABLES sys name = None)
   \<and> (\<forall>a. NAMED_OBSERVABLES sys name = Some a \<longrightarrow>
         updateObservable name d sys =
           Inr (sys\<lparr>heap := (heap sys)(a := setData d (heap sys a))\<rparr>))"
  by (auto simp add: updateObservable_def split: option.split)

theorem updateObservable_throws_iff_witness:
  "NAMED_OBSERVABLES (useObservable_register ''rows'' 3 new_system) ''rows'' = Some 3
   \<and> updateObservable ''rows'' (rows) (useObservable_register ''rows'' 3 new_system) =
       Inr ((useObservable_register ''rows'' 3 new_system)
              \<lparr>heap := (heap (useObservable_register ''rows'' 3 new_system))
                 (3 := setData (rows) (heap (useObservable_register ''rows'' 3 new_system) 3))\<rparr>)
   \<and> NAMED_OBSERVABLES (useObservable_register ''rows'' 3 new_system) ''users'' = None
   \<and> (\<exists>e. updateObservable ''users'' (rows) (useObservable_register ''rows'' 3 new_system)
         = Inl e)"
proof -
  let ?s = "useObservable_register ''rows'' 3 new_system"
  have r: "NAMED_OBSERVABLES ?s ''rows'' = Some 3"
    by (simp add: useObservable_register_def new_system_def)
  have u: "NAMED_OBSERVABLES ?s ''users'' = None"
    by (simp add: useObservable_register_def new_system_def)
  from updateObservable_throws_iff [of "''rows''" "rows" ?s]
    updateObservable_throws_iff [of "''users''" "rows" ?s] r u
  show ?thesis by simp
qed

section \<open>Loading\<close>




text \<open>
  C3, amended. A \<open>load(true)\<close> made while the instance is not loading and not mocking issues
  a new underlying call, whether or not \<open>params\<close> equals \<open>lastLoadedParams\<close>. So does each
  \<open>reload\<close> of a sequence in which every call settles before the next \<open>reload\<close> (the
  underlying function returns a promise, no other promise is in flight, \<open>params\<close> is not
  the string \<^verbatim>\<open>"MOCKING"\<close>): the sequence issues one call per \<open>reload\<close>.
\<close>

theorem forced_load_issues_call:
  "(\<not> isLoading (obs w) \<and> lastLoadedParams (obs w) \<noteq> MOCKING \<longrightarrow>
      calls (load True cb w) = calls w @ [params (obs w)]
      \<and> inflight (load True cb w) =
          (if this_cb w (params (obs w)) = None then inflight w @ [cb] else inflight w))
   \<and> (\<not> isLoading (obs w) \<and> lastLoadedParams (obs w) \<noteq> MOCKING
       \<and> params (obs w) \<noteq> MOCKING \<and> inflight w = []
       \<and> this_cb w (params (obs w)) = None \<longrightarrow>
      calls (run (concat (map (\<lambda>out. [Reload, Settle 0 out]) outs)) w)
        = calls w @ replicate (length outs) (params (obs w)))"
proof -
  have "calls (load True cb w) = calls w @ [params (obs w)]
      \<and> inflight (load True cb w) =
          (if this_cb w (params (obs w)) = None then inflight w @ [cb] else inflight w)"
    if "\<not> isLoading (obs w)" and "lastLoadedParams (obs w) \<noteq> MOCKING"
    using load_fetches_facts(2,4) [of w True cb] that by simp
  then show ?thesis
    using reload_rounds [of w outs] by blast
qed

theorem forced_load_issues_call_witness:
  "\<not> isLoading (obs promising)
   \<and> lastLoadedParams (obs promising) \<noteq> MOCKING
   \<and> params (obs promising) \<noteq> MOCKING
   \<and> inflight promising = []
   \<and> strict_eq (params (obs promising))
        (lastLoadedParams (obs promising))
   \<and> calls (load True (Some (Returns 5)) promising) = [JUndefined]
   \<and> calls (run [Reload, Settle 0 (Resolved rows), Reload, Settle 0 (Rejected failure),
         Reload, Settle 0 (Resolved rows)] promising)
       = [JUndefined, JUndefined, JUndefined]"
proof -
  let ?w = "new_world (\<lambda>p. None)"
  have a: "\<not> isLoading (obs ?w)" and b: "lastLoadedParams (obs ?w) \<noteq> MOCKING"
    and c: "params (obs ?w) \<noteq> MOCKING" and d: "inflight ?w = []"
    and e: "params (obs ?w) = JUndefined" and f: "lastLoadedParams (obs ?w) = JUndefined"
    and g: "this_cb ?w JUndefined = None"
    and k: "calls ?w = []"
    by (simp_all add: new_world_def new_observable_def calls_def)
  from forced_load_issues_call [of ?w "Some (Returns 5)"
      "[Resolved rows, Rejected failure, Resolved rows]"] a b c d e f g k
  show ?thesis by (simp add: numeral_3_eq_3 strict_eq_def)
qed

text \<open>
  As stated for every sequence the claim fails: a second \<open>load(true)\<close> made while the first
  is in flight is dropped.
\<close>

theorem forced_load_dropped_counterexample:
  "calls (load True None (load True None promising)) = [JUndefined]
   \<and> length (calls (load True None (load True None promising))) \<noteq> 2"
  by (simp add: obs_defs calls_def)




text \<open>
  C10, amended. The synchronous part of \<open>refetch\<close> leaves \<open>isLoading\<close>, \<open>error\<close>,
  \<open>isAwake\<close> and \<open>data\<close> as they are and dispatches nothing; it records \<open>params\<close> as
  \<open>lastLoadedParams\<close> before it calls the underlying function. When \<open>params\<close> is not NaN,
  a later \<open>load()\<close> with \<open>params\<close> unchanged and \<open>reload = false\<close> issues no underlying call
  and dispatches nothing, be it made before the refetch has settled or after: made before,
  it changes no field but \<open>isAwake\<close>, which it sets to true unless \<open>isLoading\<close> is true
  (then it changes nothing).
\<close>

theorem refetch_silent_then_load_skips:
  "isLoading (obs (refetch cb w)) = isLoading (obs w)
   \<and> error (obs (refetch cb w)) = error (obs w)
   \<and> isAwake (obs (refetch cb w)) = isAwake (obs w)
   \<and> data (obs (refetch cb w)) = data (obs w)
   \<and> lastLoadedParams (obs (refetch cb w)) = params (obs w)
   \<and> params (obs (refetch cb w)) = params (obs w)
   \<and> trace (refetch cb w) =
       trace w @ (Call (params (obs w)), (obs w)\<lparr>lastLoadedParams := params (obs w)\<rparr>) #
         (case this_cb w (params (obs w)) of
            None \<Rightarrow> []
          | Some e \<Rightarrow> [(Throw e, (obs w)\<lparr>lastLoadedParams := params (obs w)\<rparr>)])
   \<and> dispatched (refetch cb w) = dispatched w
   \<and> calls (refetch cb w) = calls w @ [params (obs w)]
   \<and> (params (obs w) \<noteq> JNaN \<longrightarrow>
        load False None (refetch cb w) =
          (if isLoading (obs w) then refetch cb w
           else (refetch cb w)\<lparr>obs := (obs (refetch cb w))\<lparr>isAwake := True\<rparr>\<rparr>)
        \<and> calls (load False None (refetch cb w)) = calls w @ [params (obs w)]
        \<and> dispatched (load False None (refetch cb w)) = dispatched w
        \<and> calls (load False None (settle (length (inflight w)) out (refetch cb w)))
            = calls w @ [params (obs w)]
        \<and> dispatched (load False None (settle (length (inflight w)) out (refetch cb w)))
            = dispatched (settle (length (inflight w)) out (refetch cb w)))"
proof -
  let ?p = "params (obs w)"
  let ?w1 = "refetch cb w"
  let ?w2 = "settle (length (inflight w)) out ?w1"
  have o: "obs ?w1 = (obs w)\<lparr>lastLoadedParams := ?p\<rparr>"
    and t: "trace ?w1 =
       trace w @ (Call ?p, (obs w)\<lparr>lastLoadedParams := ?p\<rparr>) #
         (case this_cb w ?p of
            None \<Rightarrow> []
          | Some e \<Rightarrow> [(Throw e, (obs w)\<lparr>lastLoadedParams := ?p\<rparr>)])"
    and i: "inflight ?w1 = (if this_cb w ?p = None then inflight w @ [cb] else inflight w)"
    by (simp_all add: refetch_eq split: option.split)
  have c: "calls ?w1 = calls w @ [?p]" and d: "dispatched ?w1 = dispatched w"
    by (simp_all add: t calls_def dispatched_def calls_in_append dispatched_in_append
        split: option.split)
  have after: "load False None ?w1 =
          (if isLoading (obs w) then ?w1 else ?w1\<lparr>obs := (obs ?w1)\<lparr>isAwake := True\<rparr>\<rparr>)
        \<and> calls (load False None ?w1) = calls w @ [?p]
        \<and> dispatched (load False None ?w1) = dispatched w
        \<and> calls (load False None ?w2) = calls w @ [?p]
        \<and> dispatched (load False None ?w2) = dispatched ?w2"
    if nan: "?p \<noteq> JNaN"
  proof -
    have s1: "strict_eq (params (obs ?w1)) (lastLoadedParams (obs ?w1))"
      using nan by (simp add: o strict_eq_same)
    have l: "load False None ?w1 =
          (if isLoading (obs w) then ?w1 else ?w1\<lparr>obs := (obs ?w1)\<lparr>isAwake := True\<rparr>\<rparr>)"
      using s1 by (simp add: o load_def call_cb_def Let_def)
    have k: "calls (load False None ?w1) = calls w @ [?p]"
      and e: "dispatched (load False None ?w1) = dispatched w"
      using c d calls_load_skipped [of False ?w1 None] dispatched_load_skipped [of False ?w1 None]
        s1 by simp_all
    have s2: "strict_eq (params (obs ?w2)) (lastLoadedParams (obs ?w2)) \<and> calls ?w2 = calls ?w1"
    proof (cases "this_cb w ?p")
      case None
      then have "inflight ?w1 = inflight w @ [cb]"
        by (simp add: i)
      from settle_last(2,3,5) [OF this, of out] s1 show ?thesis
        by simp
    next
      case (Some e)
      then have "?w2 = ?w1"
        by (simp add: i settle_beyond)
      then show ?thesis
        using s1 by simp
    qed
    then have "calls (load False None ?w2) = calls w @ [?p]"
      and "dispatched (load False None ?w2) = dispatched ?w2"
      using c calls_load_skipped [of False ?w2 None] dispatched_load_skipped [of False ?w2 None]
      by simp_all
    with l k e show ?thesis
      by simp
  qed
  have frame: "isLoading (obs ?w1) = isLoading (obs w)
      \<and> error (obs ?w1) = error (obs w)
      \<and> isAwake (obs ?w1) = isAwake (obs w)
      \<and> data (obs ?w1) = data (obs w)
      \<and> lastLoadedParams (obs ?w1) = ?p
      \<and> params (obs ?w1) = ?p"
    by (simp add: o)
  from frame t d c after show ?thesis
    by blast
qed

theorem refetch_silent_then_load_skips_witness:
  "params (obs (setParams request getRows)) \<noteq> JNaN
   \<and> isAwake (obs (refetch None (setParams request getRows))) = False
   \<and> dispatched (refetch None (setParams request getRows)) = []
   \<and> lastLoadedParams (obs (refetch None (setParams request getRows))) = request
   \<and> calls (load False None (refetch None (setParams request getRows))) = [request]
   \<and> dispatched (load False None (refetch None (setParams request getRows))) = []
   \<and> calls (load False None (settle 0 (Resolved rows)
        (refetch None (setParams request getRows)))) = [request]"
proof -
  let ?w = "setParams request getRows"
  have a: "params (obs ?w) \<noteq> JNaN" and p: "params (obs ?w) = request"
    and i: "inflight ?w = []" and k: "calls ?w = []" and d: "dispatched ?w = []"
    and e: "isAwake (obs ?w) = False"
    by (simp_all add: obs_defs calls_def dispatched_def)
  have s: "calls (load False None (settle 0 (Resolved rows) (refetch None ?w))) = [request]"
    using refetch_silent_then_load_skips [of None ?w "Resolved rows"] a p i k
    by simp
  then show ?thesis
    by (simp add: obs_defs calls_def dispatched_def)
qed

text \<open>
  A no-op in the strict sense the later \<open>load\<close> is not: after a \<open>refetch\<close> on an instance
  that was never loaded it marks the instance awake. And with NaN as \<open>params\<close> it is not
  skipped: it dispatches "loading" and calls the underlying function again.
\<close>

theorem load_after_refetch_counterexample:
  "isAwake (obs (refetch None (setParams request getRows))) = False
   \<and> isAwake (obs (load False None (refetch None (setParams request getRows)))) = True
   \<and> load False None (refetch None (setParams request getRows))
       \<noteq> refetch None (setParams request getRows)
   \<and> calls (load False None (refetch None (setParams JNaN promising))) = [JNaN, JNaN]
   \<and> dispatched (load False None (refetch None (setParams JNaN promising))) = [''loading'']"
proof -
  let ?w = "setParams request getRows"
  have a: "isAwake (obs (refetch None ?w)) = False"
    and b: "isAwake (obs (load False None (refetch None ?w))) = True"
    by (simp_all add: obs_defs)
  from a b have "load False None (refetch None ?w) \<noteq> refetch None ?w"
    by metis
  moreover have "calls (load False None (refetch None (setParams JNaN promising))) = [JNaN, JNaN]"
    and "dispatched (load False None (refetch None (setParams JNaN promising))) = [''loading'']"
    by (simp_all add: obs_defs calls_def dispatched_def)
  ultimately show ?thesis
    using a b by simp
qed

end
